theory Spec2Isabelle
  imports Main "HOL-Library.Sublist" "HOL-Library.Word"
begin

section \<open>Python values used by the media module\<close>

text \<open>
  The module \<^verbatim>\<open>wandb/data_types/_media.py\<close> defines the function \<^verbatim>\<open>_wb_filename\<close>
  and the class \<^verbatim>\<open>Media\<close>. Exceptions are values: every \<^verbatim>\<open>raise\<close>, failing
  \<^verbatim>\<open>assert\<close> and failing attribute or index access of the source is a branch that
  yields one of the constructors below.
\<close>

datatype py_error =
    ValueError | AssertionError | TypeError | AttributeError | NotImplementedError
  | RuntimeError | IndexError | FileNotFoundError | SameFileError | OSError | NameError

text \<open>
  A method call either raises or returns; in both cases the state it has reached is kept,
  since assignments made before a \<^verbatim>\<open>raise\<close> stay in place.
\<close>

datatype ('a, 's) outcome = Raised py_error 's | Returned 'a 's

text \<open>An instance attribute is either not there yet (reading it raises) or holds a value.\<close>

datatype 'a attr = Unset | Attr 'a


text \<open>\<^verbatim>\<open>Union[str, int]\<close>, and Python's \<^verbatim>\<open>str()\<close> on it.\<close>

datatype str_or_int = PyStr string | PyInt int

fun digits :: "nat \<Rightarrow> string" where
  "digits n = (if n < 10 then [''0123456789'' ! n]
               else digits (n div 10) @ [''0123456789'' ! (n mod 10)])"

declare digits.simps [simp del]

definition str_of_int :: "int \<Rightarrow> string" where
  "str_of_int i = (if i < 0 then CHR ''-'' # digits (nat (- i)) else digits (nat i))"

fun str_py :: "str_or_int \<Rightarrow> string" where
  "str_py (PyStr s) = s"
| "str_py (PyInt i) = str_of_int i"

type_synonym byte = "8 word"

subsection \<open>String and path functions of the standard library (POSIX flavour)\<close>

text \<open>
  \<^verbatim>\<open>os.path\<close> is \<^verbatim>\<open>posixpath\<close>: the separator is the slash. Under Windows, where
  \<^verbatim>\<open>os.path\<close> is \<^verbatim>\<open>ntpath\<close>, the model keeps the key check of \<^verbatim>\<open>bind_to_run\<close>
  and these path functions.
\<close>

definition startswith :: "string \<Rightarrow> string \<Rightarrow> bool" where
  "startswith s p = (take (length p) s = p)"

definition endswith :: "string \<Rightarrow> string \<Rightarrow> bool" where
  "endswith s x = (length x \<le> length s \<and> drop (length s - length x) s = x)"

definition lstrip :: "char \<Rightarrow> string \<Rightarrow> string" where
  "lstrip c s = dropWhile (\<lambda>d. d = c) s"

definition rstrip :: "char \<Rightarrow> string \<Rightarrow> string" where
  "rstrip c s = rev (dropWhile (\<lambda>d. d = c) (rev s))"

text \<open>\<^verbatim>\<open>s.rfind(c)\<close>: the index of the last occurrence, or \<open>-1\<close>.\<close>

definition rfind :: "char \<Rightarrow> string \<Rightarrow> int" where
  "rfind c s = (if c \<in> set s
                then int (length s) - 1 - int (length (takeWhile (\<lambda>d. d \<noteq> c) (rev s)))
                else - 1)"

definition join2 :: "string \<Rightarrow> string \<Rightarrow> string" where
  "join2 a b = (if startswith b ''/'' then b
                else if a = [] \<or> endswith a ''/'' then a @ b
                else a @ ''/'' @ b)"

text \<open>\<^verbatim>\<open>os.path.join(a, *p)\<close>\<close>

definition join :: "string \<Rightarrow> string list \<Rightarrow> string" where
  "join a p = foldl join2 a p"

definition basename :: "string \<Rightarrow> string" where
  "basename p = drop (nat (rfind CHR ''/'' p + 1)) p"

definition dirname :: "string \<Rightarrow> string" where
  "dirname p = (let head = take (nat (rfind CHR ''/'' p + 1)) p in
                if head \<noteq> [] \<and> head \<noteq> replicate (length head) CHR ''/''
                then rstrip CHR ''/'' head else head)"

text \<open>
  \<^verbatim>\<open>os.path.splitext\<close>: the extension starts at the last dot, provided that dot comes
  after the last separator and some character between the two is not a dot.
\<close>

definition splitext :: "string \<Rightarrow> string \<times> string" where
  "splitext p =
     (let sepIndex = rfind CHR ''/'' p; dotIndex = rfind CHR ''.'' p in
      if dotIndex > sepIndex \<and>
         list_ex (\<lambda>c. c \<noteq> CHR ''.'') (take (nat (dotIndex - (sepIndex + 1))) (drop (nat (sepIndex + 1)) p))
      then (take (nat dotIndex) p, drop (nat dotIndex) p)
      else (p, []))"

section \<open>The module\<close>

text \<open>\<^verbatim>\<open>_wb_filename(key, step, id, extension)\<close>\<close>

definition wb_filename :: "str_or_int \<Rightarrow> str_or_int \<Rightarrow> str_or_int \<Rightarrow> string \<Rightarrow> string" where
  "wb_filename key step ident extension =
     str_py key @ ''_'' @ str_py step @ ''_'' @ str_py ident @ extension"

subsection \<open>Classes\<close>

text \<open>
  \<^verbatim>\<open>Media\<close> is a base class: \<^verbatim>\<open>get_media_subdir\<close> raises
  \<^verbatim>\<open>NotImplementedError\<close> in it and the concrete media kinds are its subclasses. A class
  is \<^verbatim>\<open>Media\<close> itself or a named subclass of another class, which may override
  \<^verbatim>\<open>get_media_subdir\<close> with a constant; a method that is not overridden is looked
  up in the parent.
\<close>

datatype cls = Media | Subclass string "string option" cls

fun get_media_subdir :: "cls \<Rightarrow> py_error + string" where
  "get_media_subdir Media = Inl NotImplementedError"
| "get_media_subdir (Subclass n None parent) = get_media_subdir parent"
| "get_media_subdir (Subclass n (Some d) parent) = Inr d"

text \<open>\<^verbatim>\<open>issubclass c d\<close>: \<open>d\<close> is \<open>c\<close> or one of its ancestors.\<close>

fun issubclass :: "cls \<Rightarrow> cls \<Rightarrow> bool" where
  "issubclass Media d = (d = Media)"
| "issubclass (Subclass n ov parent) d = (d = Subclass n ov parent \<or> issubclass parent d)"

subsection \<open>Collaborators\<close>

text \<open>
  A run is an object with a directory; \<open>run_id\<close> is the object's identity, which
  \<^verbatim>\<open>is\<close> compares.
\<close>

record run =
  run_id :: nat
  dir :: string

text \<open>
  Modelled from the spec: the source artifact behind \<^verbatim>\<open>_artifact_source\<close> (class
  \<^verbatim>\<open>PublicArtifact\<close>, not part of this module). The spec gives it
  \<^verbatim>\<open>defaultRoot() \<rightarrow> path\<close> and \<^verbatim>\<open>getPath(name) \<rightarrow> PathHandle{refUrl()}\<close>;
  \<open>ref_url\<close> is the composition \<^verbatim>\<open>get_path(name).ref_url()\<close>.
\<close>

record source_artifact =
  default_root :: string
  ref_url :: "string \<Rightarrow> string"

text \<open>
  Modelled from the spec: the artifact a media object is serialized into (class
  \<^verbatim>\<open>Artifact\<close>, not part of this module). The spec gives it a dedup lookup
  \<^verbatim>\<open>getAddedLocalPathName(path) \<rightarrow> optional name\<close>, \<^verbatim>\<open>addFile(path, name, isTemporary)
  \<rightarrow> entry{path}\<close> and \<^verbatim>\<open>addReference(refUrl, name) \<rightarrow> void\<close>, and says that
  serialization mutates the artifact's file/reference table. The table of added local
  paths maps a source path to the name its entry was given; the lists record the calls
  in order.
\<close>

record artifact =
  added_local_paths :: "string \<rightharpoonup> string"
  added_files :: "(string \<times> string \<times> bool) list"
  added_references :: "(string \<times> string) list"

text \<open>
  What the module takes from its environment: the platform name, helper functions of
  \<^verbatim>\<open>wandb.util\<close> and of the standard library that are not defined here, the class
  attribute \<^verbatim>\<open>_log_type\<close>, the class \<^verbatim>\<open>Audio\<close> with its static method
  \<^verbatim>\<open>path_is_reference\<close>, and the name an artifact gives to a file it adds.

  \<^item> \<open>sha256_hexdigest bs\<close> is \<^verbatim>\<open>hashlib.sha256(bs).hexdigest()\<close>;
  \<^item> \<open>mkdir_ok d\<close> tells whether \<^verbatim>\<open>mkdir_exists_ok(d)\<close> returns (it raises
    \<^verbatim>\<open>OSError\<close> otherwise);
  \<^item> \<open>relpath p start\<close> is \<^verbatim>\<open>os.path.relpath(p, start)\<close>;
  \<^item> \<open>entry_path p name tmp\<close> is the \<^verbatim>\<open>path\<close> of the entry that
    \<^verbatim>\<open>artifact.add_file(p, name=name, is_tmp=tmp)\<close> returns.
\<close>

record env =
  SYS_PLATFORM :: string
  check_windows_valid_filename :: "str_or_int \<Rightarrow> bool"
  sha256_hexdigest :: "byte list \<Rightarrow> string"
  mkdir_ok :: "string \<Rightarrow> bool"
  relpath :: "string \<Rightarrow> string \<Rightarrow> string"
  to_forward_slash_path :: "string \<Rightarrow> string"
  log_type :: "cls \<Rightarrow> string option"
  Audio :: cls
  path_is_reference :: "string \<Rightarrow> bool"
  entry_path :: "string \<Rightarrow> string \<Rightarrow> bool \<Rightarrow> string"

text \<open>
  The file system holds regular files, named by their path strings, and the log of the
  calls of \<^verbatim>\<open>_datatypes_callback\<close>.
\<close>

record world =
  files :: "string \<rightharpoonup> byte list"
  callbacks :: "string list"

text \<open>
  \<^verbatim>\<open>shutil.move(src, dst)\<close> for a regular file and a destination that is not a
  directory: a rename, which replaces the destination and leaves a file renamed to
  itself in place.
\<close>

definition move :: "(string \<rightharpoonup> byte list) \<Rightarrow> string \<Rightarrow> string \<Rightarrow> py_error + (string \<rightharpoonup> byte list)" where
  "move fs src dst =
     (case fs src of
        None \<Rightarrow> Inl FileNotFoundError
      | Some bs \<Rightarrow> Inr ((fs(src := None))(dst \<mapsto> bs)))"

text \<open>\<^verbatim>\<open>shutil.copy(src, dst)\<close>, which refuses to copy a file onto itself.\<close>

definition copy :: "(string \<rightharpoonup> byte list) \<Rightarrow> string \<Rightarrow> string \<Rightarrow> py_error + (string \<rightharpoonup> byte list)" where
  "copy fs src dst =
     (case fs src of
        None \<Rightarrow> Inl FileNotFoundError
      | Some bs \<Rightarrow> if src = dst then Inl SameFileError else Inr (fs(dst \<mapsto> bs)))"

text \<open>
  Modelled from the spec: \<^verbatim>\<open>getAddedLocalPathName(path) \<rightarrow> optional name\<close>, the dedup
  lookup.
\<close>

definition get_added_local_path_name :: "artifact \<Rightarrow> string \<Rightarrow> string option" where
  "get_added_local_path_name a p = added_local_paths a p"

text \<open>
  Modelled from the spec: \<^verbatim>\<open>addFile(path, name, isTemporary) \<rightarrow> entry{path}\<close>. The
  artifact may give the entry another name than the one asked for; the entry's name is
  what it records for the source path and returns.
\<close>

definition add_file :: "env \<Rightarrow> artifact \<Rightarrow> string \<Rightarrow> string \<Rightarrow> bool \<Rightarrow> string \<times> artifact" where
  "add_file e a p name tmp =
     (let final = entry_path e p name tmp in
      (final, a\<lparr>added_local_paths := (added_local_paths a)(p \<mapsto> final),
                 added_files := added_files a @ [(p, final, tmp)]\<rparr>))"

text \<open>
  Modelled from the spec: \<^verbatim>\<open>addReference(refUrl, name) \<rightarrow> void\<close>. The call is given no
  local path, so it records the reference and nothing in the table of added local
  paths.
\<close>

definition add_reference :: "artifact \<Rightarrow> string \<Rightarrow> string \<Rightarrow> artifact" where
  "add_reference a url name = a\<lparr>added_references := added_references a @ [(url, name)]\<rparr>"

subsection \<open>The class Media\<close>

text \<open>
  The instance attributes. \<open>m_path\<close>, \<open>m_run\<close> and \<open>m_caption\<close> are set by the
  constructor; \<open>m_is_tmp\<close>, \<open>m_extension\<close>, \<open>m_sha256\<close> and \<open>m_size\<close> exist only once
  \<^verbatim>\<open>_set_file\<close> has assigned them. \<open>m_class\<close> is \<^verbatim>\<open>type(self)\<close>. The last three
  fields come from the base class \<^verbatim>\<open>WBValue\<close>.
\<close>

record media =
  m_class :: cls
  m_path :: "string option"
  m_run :: "run option"
  m_caption :: "string option"
  m_is_tmp :: "bool attr"
  m_extension :: "string option attr"
  m_sha256 :: "string attr"
  m_size :: "nat attr"
  m_artifact_source :: "source_artifact option"
  m_artifact_entry_ref_url :: "string option"
  m_artifact_entry_latest_ref_url :: "string option"

text \<open>\<^verbatim>\<open>Media.__init__(caption)\<close> on a new object of class \<open>c\<close>.\<close>

definition init :: "cls \<Rightarrow> string option \<Rightarrow> media" where
  "init c caption =
     \<lparr>m_class = c, m_path = None, m_run = None, m_caption = caption, m_is_tmp = Unset,
      m_extension = Unset, m_sha256 = Unset, m_size = Unset, m_artifact_source = None,
      m_artifact_entry_ref_url = None, m_artifact_entry_latest_ref_url = None\<rparr>"

text \<open>\<^verbatim>\<open>Media._set_file(path, is_tmp, extension)\<close>\<close>

definition set_file ::
  "env \<Rightarrow> media \<Rightarrow> world \<Rightarrow> string \<Rightarrow> bool \<Rightarrow> string option \<Rightarrow> (unit, media \<times> world) outcome" where
  "set_file e self w path is_tmp extension =
     (let self = self\<lparr>m_path := Some path, m_is_tmp := Attr is_tmp, m_extension := Attr extension\<rparr> in
      if (case extension of None \<Rightarrow> False | Some x \<Rightarrow> \<not> endswith path x)
      then Raised ValueError (self, w)
      else case files w path of
             None \<Rightarrow> Raised FileNotFoundError (self, w)
           | Some bs \<Rightarrow>
               Returned () (self\<lparr>m_sha256 := Attr (sha256_hexdigest e bs),
                                  m_size := Attr (length bs)\<rparr>, w))"

datatype captions_result = PyFalse | Captions "string option list"

text \<open>\<^verbatim>\<open>Media.captions(media_items)\<close>\<close>

definition captions :: "media list \<Rightarrow> py_error + captions_result" where
  "captions media_items =
     (case media_items of
        [] \<Rightarrow> Inl IndexError
      | m0 # _ \<Rightarrow>
          if m_caption m0 \<noteq> None then Inr (Captions (map m_caption media_items))
          else Inr PyFalse)"

definition is_bound :: "media \<Rightarrow> bool" where
  "is_bound self = (m_run self \<noteq> None)"

text \<open>
  \<^verbatim>\<open>Media.file_is_set()\<close>: \<^verbatim>\<open>and\<close> reads \<^verbatim>\<open>_sha256\<close> only when the path is set.
\<close>

definition file_is_set :: "media \<Rightarrow> py_error + bool" where
  "file_is_set self =
     (case m_path self of
        None \<Rightarrow> Inr False
      | Some p \<Rightarrow> (case m_sha256 self of Unset \<Rightarrow> Inl AttributeError | Attr h \<Rightarrow> Inr True))"

text \<open>
  Lines 130 to 139 of \<^verbatim>\<open>bind_to_run\<close>: the extension is the attribute when it is
  not \<^verbatim>\<open>None\<close> and else what \<^verbatim>\<open>splitext\<close> finds in the base name of the path; the
  id is the argument when it is not \<^verbatim>\<open>None\<close> and else \<^verbatim>\<open>self._sha256[:20]\<close>; the media
  path joins the class's media directory and the file name.
\<close>

definition resolved_extension :: "string option \<Rightarrow> string \<Rightarrow> string" where
  "resolved_extension ext path =
     (case ext of None \<Rightarrow> snd (splitext (basename path)) | Some x \<Rightarrow> x)"

definition resolved_id :: "str_or_int option \<Rightarrow> string \<Rightarrow> str_or_int" where
  "resolved_id id_arg sha = (case id_arg of None \<Rightarrow> PyStr (take 20 sha) | Some i \<Rightarrow> i)"

definition run_media_path ::
  "string \<Rightarrow> str_or_int \<Rightarrow> str_or_int \<Rightarrow> str_or_int option \<Rightarrow> string \<Rightarrow> string option \<Rightarrow> string
     \<Rightarrow> string" where
  "run_media_path subdir key step id_arg sha ext path =
     join subdir [wb_filename key step (resolved_id id_arg sha) (resolved_extension ext path)]"

text \<open>
  \<^verbatim>\<open>Media.bind_to_run(run, key, step, id_)\<close>. The run is assigned before the destination
  is computed and the file relocated, so a call that raises later leaves \<open>m_run\<close> set.
  The two \<^verbatim>\<open>assert isinstance\<close> lines cannot fail once \<open>file_is_set\<close> holds; they are
  the last alternative of the case on path and hash.
\<close>

definition bind_to_run ::
  "env \<Rightarrow> media \<Rightarrow> world \<Rightarrow> run option \<Rightarrow> str_or_int \<Rightarrow> str_or_int \<Rightarrow> str_or_int option
     \<Rightarrow> (unit, media \<times> world) outcome" where
  "bind_to_run e self w run key step id_arg =
     (case file_is_set self of
        Inl err \<Rightarrow> Raised err (self, w)
      | Inr False \<Rightarrow> Raised AssertionError (self, w)
      | Inr True \<Rightarrow>
          if SYS_PLATFORM e = ''Windows'' \<and> \<not> check_windows_valid_filename e key
          then Raised ValueError (self, w)
          else
            (case (m_path self, m_sha256 self) of
               (Some path, Attr sha) \<Rightarrow>
                 (case run of
                    None \<Rightarrow> Raised TypeError (self, w)
                  | Some r \<Rightarrow>
                      let self = self\<lparr>m_run := Some r\<rparr> in
                      (case m_extension self of
                         Unset \<Rightarrow> Raised AttributeError (self, w)
                       | Attr ext \<Rightarrow>
                           (case get_media_subdir (m_class self) of
                              Inl err \<Rightarrow> Raised err (self, w)
                            | Inr subdir \<Rightarrow>
                                let media_path = run_media_path subdir key step id_arg sha ext path;
                                    new_path = join (dir r) [media_path]
                                in
                                if \<not> mkdir_ok e (dirname new_path) then Raised OSError (self, w)
                                else
                                  (case m_is_tmp self of
                                     Unset \<Rightarrow> Raised AttributeError (self, w)
                                   | Attr True \<Rightarrow>
                                       (case move (files w) path new_path of
                                          Inl err \<Rightarrow> Raised err (self, w)
                                        | Inr fs \<Rightarrow>
                                            Returned ()
                                              (self\<lparr>m_path := Some new_path, m_is_tmp := Attr False\<rparr>,
                                               w\<lparr>files := fs, callbacks := callbacks w @ [media_path]\<rparr>))
                                   | Attr False \<Rightarrow>
                                       (case copy (files w) path new_path of
                                          Inl err \<Rightarrow> Raised err (self, w)
                                        | Inr fs \<Rightarrow>
                                            Returned ()
                                              (self\<lparr>m_path := Some new_path\<rparr>,
                                               w\<lparr>files := fs, callbacks := callbacks w @ [media_path]\<rparr>))))))
             | _ \<Rightarrow> Raised AssertionError (self, w)))"

subsection \<open>Serialization\<close>

datatype json = JStr string | JInt int | JNone

type_synonym json_obj = "string \<rightharpoonup> json"

text \<open>
  The argument of \<^verbatim>\<open>to_json\<close>, by the collaborator class it is an instance of.
\<close>

datatype target = IsRun run | IsArtifact artifact | Neither

text \<open>
  The module imports \<^verbatim>\<open>Run\<close>, \<^verbatim>\<open>Artifact\<close> and \<^verbatim>\<open>PublicArtifact\<close> on lines 18 to 21
  under \<^verbatim>\<open>if TYPE_CHECKING:\<close>, and \<^verbatim>\<open>typing.TYPE_CHECKING\<close> is \<^verbatim>\<open>False\<close> when the
  program runs. \<^verbatim>\<open>to_json\<close> itself imports \<^verbatim>\<open>Audio\<close> only (line 166). The two
  names that its \<^verbatim>\<open>isinstance\<close> tests read are therefore bound exactly when the
  guarded imports have run; reading an unbound name raises \<^verbatim>\<open>NameError\<close>.
\<close>

definition TYPE_CHECKING :: bool where
  "TYPE_CHECKING = False"

definition Run_bound :: bool where
  "Run_bound = TYPE_CHECKING"

definition Artifact_bound :: bool where
  "Artifact_bound = TYPE_CHECKING"

definition json_of_option :: "string option \<Rightarrow> json" where
  "json_of_option v = (case v of None \<Rightarrow> JNone | Some s \<Rightarrow> JStr s)"

text \<open>\<^verbatim>\<open>if v is not None: json_obj[k] = v\<close>\<close>

definition put_if_some :: "string \<Rightarrow> string option \<Rightarrow> json_obj \<Rightarrow> json_obj" where
  "put_if_some k v obj = (case v of None \<Rightarrow> obj | Some s \<Rightarrow> obj(k \<mapsto> JStr s))"

text \<open>The descriptor of the artifact branch once the name is resolved.\<close>

definition artifact_json :: "env \<Rightarrow> media \<Rightarrow> string \<Rightarrow> string \<Rightarrow> json_obj" where
  "artifact_json e self name sha =
     [''path'' \<mapsto> JStr name, ''sha256'' \<mapsto> JStr sha,
      ''_type'' \<mapsto> json_of_option (log_type e (m_class self))]"

text \<open>
  The name the artifact branch derives when the path has not been added before:
  lines 212 to 224 of the source.
\<close>

definition candidate_name :: "string \<Rightarrow> bool \<Rightarrow> string \<Rightarrow> string \<Rightarrow> string" where
  "candidate_name subdir is_tmp sha path =
     (if is_tmp then join subdir [basename path]
      else join subdir [take 20 sha, basename path])"

text \<open>
  \<^verbatim>\<open>Media.to_json(run)\<close>; the state it returns is its argument, updated. Line 169
  evaluates \<^verbatim>\<open>isinstance(run, Run)\<close> first, whatever the argument is, and line 202
  evaluates \<^verbatim>\<open>isinstance(run, Artifact)\<close> when the first test is false.
\<close>

definition to_json :: "env \<Rightarrow> media \<Rightarrow> target \<Rightarrow> (json_obj, target) outcome" where
  "to_json e self tgt =
     (if \<not> Run_bound then Raised NameError tgt
      else case tgt of
        IsRun run \<Rightarrow>
          if \<not> is_bound self then Raised RuntimeError tgt
          else
            (case m_run self of
               None \<Rightarrow> Raised RuntimeError tgt
             | Some r \<Rightarrow>
                 if run_id r \<noteq> run_id run then Raised AssertionError tgt
                 else
                   (case m_path self of
                      None \<Rightarrow> Raised AssertionError tgt
                    | Some path \<Rightarrow>
                        (case m_sha256 self of
                           Unset \<Rightarrow> Raised AttributeError tgt
                         | Attr sha \<Rightarrow>
                             (case m_size self of
                                Unset \<Rightarrow> Raised AttributeError tgt
                              | Attr n \<Rightarrow>
                                  Returned
                                    (put_if_some ''_latest_artifact_path'' (m_artifact_entry_latest_ref_url self)
                                      (put_if_some ''artifact_path'' (m_artifact_entry_ref_url self)
                                        [''_type'' \<mapsto> JStr ''file'',
                                         ''path'' \<mapsto> JStr (to_forward_slash_path e (relpath e path (dir r))),
                                         ''sha256'' \<mapsto> JStr sha,
                                         ''size'' \<mapsto> JInt (int n)]))
                                    tgt))))
      | IsArtifact artifact \<Rightarrow>
          if \<not> Artifact_bound then Raised NameError tgt
          else
          (case file_is_set self of
             Inl err \<Rightarrow> Raised err tgt
           | Inr False \<Rightarrow> Returned [''_type'' \<mapsto> json_of_option (log_type e (m_class self))] tgt
           | Inr True \<Rightarrow>
               (case (m_path self, m_sha256 self) of
                  (Some path, Attr sha) \<Rightarrow>
                    (case get_added_local_path_name artifact path of
                       Some name \<Rightarrow> Returned (artifact_json e self name sha) tgt
                     | None \<Rightarrow>
                         (case m_is_tmp self of
                            Unset \<Rightarrow> Raised AttributeError tgt
                          | Attr is_tmp \<Rightarrow>
                              (case get_media_subdir (m_class self) of
                                 Inl err \<Rightarrow> Raised err tgt
                               | Inr subdir \<Rightarrow>
                                   let name = candidate_name subdir is_tmp sha path in
                                   (case m_artifact_source self of
                                      Some src \<Rightarrow>
                                        let name = (if startswith path (default_root src)
                                                    then lstrip CHR ''/'' (drop (length (default_root src)) path)
                                                    else name)
                                        in Returned (artifact_json e self name sha)
                                             (IsArtifact (add_reference artifact (ref_url src name) name))
                                    | None \<Rightarrow>
                                        if issubclass (m_class self) (Audio e) \<and> path_is_reference e path
                                        then Returned (artifact_json e self name sha)
                                               (IsArtifact (add_reference artifact path name))
                                        else
                                          (case add_file e artifact path name is_tmp of
                                             (final, artifact') \<Rightarrow>
                                               Returned (artifact_json e self final sha)
                                                 (IsArtifact artifact'))))))
                | _ \<Rightarrow> Raised AssertionError tgt))
      | Neither \<Rightarrow>
          if \<not> Artifact_bound then Raised NameError tgt else Returned Map.empty tgt)"


section \<open>Example objects and preconditions\<close>

text \<open>
  Concrete classes, objects, an environment and a file system on which the properties
  below are evaluated: an image class and a class derived from it, an object as
  \<^verbatim>\<open>_set_file\<close> leaves it, an environment whose hash function sends the bytes
  \<open>[1, 2, 3]\<close> to a string of 64 letters \<open>a\<close>, and a file system with one staged file.
\<close>

definition image_cls :: cls where
  "image_cls = Subclass ''Image'' (Some ''media/images'') Media"


definition hash_a :: string where
  "hash_a = replicate 64 CHR ''a''"

definition attached :: "cls \<Rightarrow> string option \<Rightarrow> string \<Rightarrow> string \<Rightarrow> nat \<Rightarrow> media" where
  "attached c cap p h n =
     (init c cap)\<lparr>m_path := Some p, m_is_tmp := Attr False, m_extension := Attr None,
                  m_sha256 := Attr h, m_size := Attr n\<rparr>"

definition env0 :: env where
  "env0 = \<lparr>SYS_PLATFORM = ''Linux'', check_windows_valid_filename = (\<lambda>k. True),
     sha256_hexdigest = (\<lambda>bs. if bs = [1, 2, 3] then hash_a else replicate 64 CHR ''b''),
     mkdir_ok = (\<lambda>d. True), relpath = (\<lambda>p s. drop (Suc (length s)) p),
     to_forward_slash_path = (\<lambda>p. p), log_type = (\<lambda>c. Some ''image-file''),
     Audio = Subclass ''Audio'' (Some ''media/audio'') Media,
     path_is_reference = (\<lambda>p. False), entry_path = (\<lambda>p n t. n)\<rparr>"

definition world0 :: world where
  "world0 = \<lparr>files = [''/tmp/a.png'' \<mapsto> [1, 2, 3]], callbacks = []\<rparr>"

text \<open>
  Two runs; the object that \<^verbatim>\<open>_set_file\<close> makes of the staged file; and the objects and
  file systems after binding it to the first run and then to the second.
\<close>

definition run1 :: run where
  "run1 = \<lparr>run_id = 1, dir = ''/r1''\<rparr>"

definition run2 :: run where
  "run2 = \<lparr>run_id = 2, dir = ''/r2''\<rparr>"

definition staged :: media where
  "staged = (init image_cls None)\<lparr>m_path := Some ''/tmp/a.png'', m_is_tmp := Attr True,
       m_extension := Attr None, m_sha256 := Attr hash_a, m_size := Attr 3\<rparr>"

definition bound1 :: media where
  "bound1 = staged\<lparr>m_run := Some run1,
       m_path := Some ''/r1/media/images/img_0_aaaaaaaaaaaaaaaaaaaa.png'', m_is_tmp := Attr False\<rparr>"

definition world1 :: world where
  "world1 = \<lparr>files = [''/r1/media/images/img_0_aaaaaaaaaaaaaaaaaaaa.png'' \<mapsto> [1, 2, 3]],
              callbacks = [''media/images/img_0_aaaaaaaaaaaaaaaaaaaa.png'']\<rparr>"

definition bound2 :: media where
  "bound2 = bound1\<lparr>m_run := Some run2,
       m_path := Some ''/r2/media/images/img_0_aaaaaaaaaaaaaaaaaaaa.png''\<rparr>"

definition world2 :: world where
  "world2 = \<lparr>files = [''/r1/media/images/img_0_aaaaaaaaaaaaaaaaaaaa.png'' \<mapsto> [1, 2, 3],
                       ''/r2/media/images/img_0_aaaaaaaaaaaaaaaaaaaa.png'' \<mapsto> [1, 2, 3]],
              callbacks = [''media/images/img_0_aaaaaaaaaaaaaaaaaaaa.png'',
                           ''media/images/img_0_aaaaaaaaaaaaaaaaaaaa.png'']\<rparr>"

text \<open>An artifact to which nothing has been added.\<close>

definition artifact0 :: artifact where
  "artifact0 = \<lparr>added_local_paths = Map.empty, added_files = [], added_references = []\<rparr>"

text \<open>The extension argument of \<^verbatim>\<open>_set_file\<close> passes the check of line 66.\<close>

definition extension_ok :: "string \<Rightarrow> string option \<Rightarrow> bool" where
  "extension_ok p ext = (case ext of None \<Rightarrow> True | Some x \<Rightarrow> suffix x p)"

section \<open>Properties\<close>

subsection \<open>Shared facts\<close>

lemma endswith_iff_suffix: "endswith p x \<longleftrightarrow> suffix x p"
  unfolding endswith_def suffix_def
  by (metis append_eq_conv_conj append_take_drop_id diff_add_inverse2 length_append length_drop le_add2)


lemma bind_to_run_returns:
  assumes "m_path self = Some path" and "m_sha256 self = Attr sha"
    and "m_extension self = Attr ext" and "m_is_tmp self = Attr tmp"
    and "get_media_subdir (m_class self) = Inr subdir"
    and "SYS_PLATFORM e = ''Windows'' \<longrightarrow> check_windows_valid_filename e key"
    and "media_path = run_media_path subdir key step id_arg sha ext path"
    and "new_path = join (dir r) [media_path]"
    and "mkdir_ok e (dirname new_path)"
    and "files w path = Some bs"
    and "tmp \<or> new_path \<noteq> path"
  shows "bind_to_run e self w (Some r) key step id_arg =
           Returned ()
             (self\<lparr>m_run := Some r, m_path := Some new_path, m_is_tmp := Attr False\<rparr>,
              w\<lparr>files := (if tmp then ((files w)(path := None))(new_path \<mapsto> bs)
                           else (files w)(new_path \<mapsto> bs)),
                 callbacks := callbacks w @ [media_path]\<rparr>)"
proof (cases tmp)
  case True
  with assms show ?thesis
    by (simp add: bind_to_run_def file_is_set_def move_def Let_def)
next
  case False
  have "self\<lparr>m_run := Some r, m_path := Some new_path\<rparr> =
        self\<lparr>m_run := Some r, m_path := Some new_path, m_is_tmp := Attr False\<rparr>"
    using assms(4) False by (cases self) simp
  with False assms show ?thesis
    by (simp add: bind_to_run_def file_is_set_def copy_def Let_def)
qed

lemma bind_to_run_ReturnedD:
  assumes "bind_to_run e self w run key step id_arg = Returned u (self', w')"
  shows "\<exists>r path sha ext tmp subdir bs.
           run = Some r \<and> m_path self = Some path \<and> m_sha256 self = Attr sha \<and>
           m_extension self = Attr ext \<and> m_is_tmp self = Attr tmp \<and>
           get_media_subdir (m_class self) = Inr subdir \<and>
           (SYS_PLATFORM e = ''Windows'' \<longrightarrow> check_windows_valid_filename e key) \<and>
           mkdir_ok e (dirname (join (dir r) [run_media_path subdir key step id_arg sha ext path])) \<and>
           files w path = Some bs \<and>
           (tmp \<or> join (dir r) [run_media_path subdir key step id_arg sha ext path] \<noteq> path)"
  using assms
  by (auto simp: bind_to_run_def file_is_set_def move_def copy_def Let_def
           split: option.splits attr.splits sum.splits bool.splits if_splits)

lemma bind_to_run_Returned_eq:
  assumes "bind_to_run e self w run key step id_arg = Returned u (self', w')"
  shows "\<exists>r path sha ext tmp subdir bs.
           run = Some r \<and> m_path self = Some path \<and> m_sha256 self = Attr sha \<and>
           m_extension self = Attr ext \<and> m_is_tmp self = Attr tmp \<and>
           get_media_subdir (m_class self) = Inr subdir \<and> files w path = Some bs \<and>
           (tmp \<or> join (dir r) [run_media_path subdir key step id_arg sha ext path] \<noteq> path) \<and>
           self' = self\<lparr>m_run := Some r,
                     m_path := Some (join (dir r) [run_media_path subdir key step id_arg sha ext path]),
                     m_is_tmp := Attr False\<rparr> \<and>
           w' = w\<lparr>files := (if tmp
                            then ((files w)(path := None))
                                   (join (dir r) [run_media_path subdir key step id_arg sha ext path] \<mapsto> bs)
                            else (files w)
                                   (join (dir r) [run_media_path subdir key step id_arg sha ext path] \<mapsto> bs)),
                  callbacks := callbacks w @ [run_media_path subdir key step id_arg sha ext path]\<rparr>"
proof -
  from bind_to_run_ReturnedD [OF assms] obtain r path sha ext tmp subdir bs where
    h: "run = Some r" "m_path self = Some path" "m_sha256 self = Attr sha"
       "m_extension self = Attr ext" "m_is_tmp self = Attr tmp"
       "get_media_subdir (m_class self) = Inr subdir"
       "SYS_PLATFORM e = ''Windows'' \<longrightarrow> check_windows_valid_filename e key"
       "mkdir_ok e (dirname (join (dir r) [run_media_path subdir key step id_arg sha ext path]))"
       "files w path = Some bs"
       "tmp \<or> join (dir r) [run_media_path subdir key step id_arg sha ext path] \<noteq> path"
    by blast
  from bind_to_run_returns [OF h(2-7) refl refl h(8-10)] assms h(1)
  have "self' = self\<lparr>m_run := Some r,
                     m_path := Some (join (dir r) [run_media_path subdir key step id_arg sha ext path]),
                     m_is_tmp := Attr False\<rparr>"
    and "w' = w\<lparr>files := (if tmp
                            then ((files w)(path := None))
                                   (join (dir r) [run_media_path subdir key step id_arg sha ext path] \<mapsto> bs)
                            else (files w)
                                   (join (dir r) [run_media_path subdir key step id_arg sha ext path] \<mapsto> bs)),
                  callbacks := callbacks w @ [run_media_path subdir key step id_arg sha ext path]\<rparr>"
    by simp_all
  with h show ?thesis by blast
qed

lemma digits_0: "digits 0 = ''0''"
  by (simp add: digits.simps)

lemma example_media_path:
  "run_media_path ''media/images'' (PyStr ''img'') (PyInt 0) None hash_a None ''/tmp/a.png'' =
     ''media/images/img_0_aaaaaaaaaaaaaaaaaaaa.png''"
  by (simp add: run_media_path_def resolved_id_def resolved_extension_def wb_filename_def
        str_of_int_def digits_0 hash_a_def join_def join2_def startswith_def endswith_def
        splitext_def basename_def rfind_def eval_nat_numeral)

lemma first_bind:
  "bind_to_run env0 staged world0 (Some run1) (PyStr ''img'') (PyInt 0) None = Returned () (bound1, world1)"
proof -
  have "bind_to_run env0 staged world0 (Some run1) (PyStr ''img'') (PyInt 0) None =
     Returned ()
       (staged\<lparr>m_run := Some run1, m_path := Some ''/r1/media/images/img_0_aaaaaaaaaaaaaaaaaaaa.png'', m_is_tmp := Attr False\<rparr>,
        world0\<lparr>files := (if True then ((files world0)(''/tmp/a.png'' := None))(''/r1/media/images/img_0_aaaaaaaaaaaaaaaaaaaa.png'' \<mapsto> [1, 2, 3])
                           else (files world0)(''/r1/media/images/img_0_aaaaaaaaaaaaaaaaaaaa.png'' \<mapsto> [1, 2, 3])),
               callbacks := callbacks world0 @ [''media/images/img_0_aaaaaaaaaaaaaaaaaaaa.png'']\<rparr>)"
    by (rule bind_to_run_returns [where path = "''/tmp/a.png''" and sha = hash_a and ext = None
          and subdir = "''media/images''"])
       (simp_all add: staged_def init_def image_cls_def env0_def world0_def run1_def
          example_media_path join_def join2_def startswith_def endswith_def)
  then show ?thesis
    by (simp add: bound1_def world1_def world0_def)
qed

lemma second_media_path:
  "run_media_path ''media/images'' (PyStr ''img'') (PyInt 0) None hash_a None
     ''/r1/media/images/img_0_aaaaaaaaaaaaaaaaaaaa.png'' =
     ''media/images/img_0_aaaaaaaaaaaaaaaaaaaa.png''"
  by (simp add: run_media_path_def resolved_id_def resolved_extension_def wb_filename_def
        str_of_int_def digits_0 hash_a_def join_def join2_def startswith_def endswith_def
        splitext_def basename_def rfind_def eval_nat_numeral)

lemma second_bind:
  "bind_to_run env0 bound1 world1 (Some run2) (PyStr ''img'') (PyInt 0) None = Returned () (bound2, world2)"
proof -
  have "bind_to_run env0 bound1 world1 (Some run2) (PyStr ''img'') (PyInt 0) None =
     Returned ()
       (bound1\<lparr>m_run := Some run2, m_path := Some ''/r2/media/images/img_0_aaaaaaaaaaaaaaaaaaaa.png'', m_is_tmp := Attr False\<rparr>,
        world1\<lparr>files := (if False then ((files world1)(''/r1/media/images/img_0_aaaaaaaaaaaaaaaaaaaa.png'' := None))(''/r2/media/images/img_0_aaaaaaaaaaaaaaaaaaaa.png'' \<mapsto> [1, 2, 3])
                           else (files world1)(''/r2/media/images/img_0_aaaaaaaaaaaaaaaaaaaa.png'' \<mapsto> [1, 2, 3])),
               callbacks := callbacks world1 @ [''media/images/img_0_aaaaaaaaaaaaaaaaaaaa.png'']\<rparr>)"
    by (rule bind_to_run_returns [where path = "''/r1/media/images/img_0_aaaaaaaaaaaaaaaaaaaa.png''"
          and sha = hash_a and ext = None and subdir = "''media/images''"])
       (simp_all add: bound1_def staged_def init_def image_cls_def env0_def world1_def run2_def
          second_media_path join_def join2_def startswith_def endswith_def)
  then show ?thesis
    by (simp add: bound2_def bound1_def world2_def world1_def)
qed

lemma basename_img1: "basename ''/dir1/img.png'' = ''img.png''"
  by (simp add: basename_def rfind_def)

text \<open>
  With \<^verbatim>\<open>Run\<close> unbound, \<^verbatim>\<open>to_json\<close> raises at its first test and changes nothing.
\<close>

lemma to_json_NameError: "to_json e self tgt = Raised NameError tgt"
  by (simp add: to_json_def Run_bound_def TYPE_CHECKING_def)

subsection \<open>Captions\<close>

text \<open>
  C10. On a non-empty sequence \<^verbatim>\<open>captions\<close> returns the list of all captions when the
  first item's caption is not \<^verbatim>\<open>None\<close> and \<^verbatim>\<open>False\<close> otherwise; on the empty
  sequence reading \<^verbatim>\<open>media_items[0]\<close> raises \<^verbatim>\<open>IndexError\<close>, which nothing guards.
\<close>

theorem captions_spec:
  "captions [] = Inl IndexError \<and>
   captions (m # ms) =
     (if m_caption m \<noteq> None then Inr (Captions (m_caption m # map m_caption ms)) else Inr PyFalse)"
  by (simp add: captions_def)

theorem captions_spec_witness:
  "captions [] = Inl IndexError \<and>
   captions [init Media (Some ''cat''), init Media None] = Inr (Captions [Some ''cat'', None]) \<and>
   captions [init Media None, init Media (Some ''dog'')] = Inr PyFalse"
  using captions_spec [of "init Media (Some ''cat'')" "[init Media None]"]
        captions_spec [of "init Media None" "[init Media (Some ''dog'')]"]
  by (simp add: init_def)

subsection \<open>Equality\<close>




subsection \<open>Attaching a file\<close>

text \<open>
  C9, as stated, fails: \<^verbatim>\<open>_set_file\<close> assigns \<^verbatim>\<open>_path\<close>, \<^verbatim>\<open>_is_tmp\<close> and
  \<^verbatim>\<open>_extension\<close> before it checks the extension, so the failing call has set all three
  on an object that had none of them.
\<close>

theorem set_file_invalid_extension_counterexample:
  "set_file env0 (init image_cls None) world0 ''/tmp/a.png'' True (Some ''.jpg'') =
     Raised ValueError
       ((init image_cls None)\<lparr>m_path := Some ''/tmp/a.png'', m_is_tmp := Attr True,
                                m_extension := Attr (Some ''.jpg'')\<rparr>, world0) \<and>
   m_path (init image_cls None) = None \<and>
   m_is_tmp (init image_cls None) = Unset \<and>
   m_extension (init image_cls None) = Unset"
  by (simp add: set_file_def init_def endswith_def)

text \<open>
  C9, amended. For every path and every extension that is not a suffix of it,
  \<^verbatim>\<open>_set_file\<close> raises \<^verbatim>\<open>ValueError\<close>; the failing call sets path, temporariness and
  extension to its arguments and leaves everything else as it was: hash and size are
  not set and the file system is untouched.
\<close>

theorem set_file_invalid_extension:
  assumes "\<not> suffix x p"
  shows "set_file e self w p tmp (Some x) =
           Raised ValueError (self\<lparr>m_path := Some p, m_is_tmp := Attr tmp, m_extension := Attr (Some x)\<rparr>, w)"
  using assms by (simp add: set_file_def endswith_iff_suffix)

theorem set_file_invalid_extension_witness:
  "\<not> suffix ''.jpg'' ''/tmp/a.png'' \<and>
   set_file env0 (init image_cls None) world0 ''/tmp/a.png'' True (Some ''.jpg'') =
     Raised ValueError
       ((init image_cls None)\<lparr>m_path := Some ''/tmp/a.png'', m_is_tmp := Attr True,
                                m_extension := Attr (Some ''.jpg'')\<rparr>, world0)"
proof -
  have h: "\<not> suffix ''.jpg'' ''/tmp/a.png''"
    by (simp add: endswith_iff_suffix [symmetric] endswith_def)
  show ?thesis
    using h set_file_invalid_extension [OF h, of env0 "init image_cls None" world0 True] by simp
qed

text \<open>
  C5. When the file at the path holds the bytes \<open>bs\<close> and the extension check passes,
  \<^verbatim>\<open>_set_file\<close> returns with the hash set to the SHA-256 hex digest of \<open>bs\<close> and the
  size to the length of \<open>bs\<close>; the file system is returned as it was, so no file is
  moved; and every other call on a file with the same bytes, whatever the object, the
  path and the file system, sets the same hash.
\<close>

theorem set_file_hash_and_size:
  assumes "files w p = Some bs" and "extension_ok p ext"
  shows "set_file e self w p tmp ext =
           Returned ()
             (self\<lparr>m_path := Some p, m_is_tmp := Attr tmp, m_extension := Attr ext,
                    m_sha256 := Attr (sha256_hexdigest e bs), m_size := Attr (length bs)\<rparr>, w) \<and>
         (\<forall>self' w' p' tmp' ext'. files w' p' = Some bs \<and> extension_ok p' ext' \<longrightarrow>
            (\<exists>m'. set_file e self' w' p' tmp' ext' = Returned () (m', w') \<and>
                  m_sha256 m' = Attr (sha256_hexdigest e bs)))"
  using assms
  by (auto simp: set_file_def extension_ok_def endswith_iff_suffix split: option.splits)

theorem set_file_hash_and_size_witness:
  "files world0 ''/tmp/a.png'' = Some [1, 2, 3] \<and> extension_ok ''/tmp/a.png'' (Some ''.png'') \<and>
   set_file env0 (init image_cls None) world0 ''/tmp/a.png'' True (Some ''.png'') =
     Returned ()
       ((init image_cls None)\<lparr>m_path := Some ''/tmp/a.png'', m_is_tmp := Attr True,
            m_extension := Attr (Some ''.png''), m_sha256 := Attr hash_a, m_size := Attr 3\<rparr>, world0)"
proof -
  have f: "files world0 ''/tmp/a.png'' = Some [1, 2, 3]"
    by (simp add: world0_def)
  have x: "extension_ok ''/tmp/a.png'' (Some ''.png'')"
    by (simp add: extension_ok_def endswith_iff_suffix [symmetric] endswith_def)
  have "sha256_hexdigest env0 [1, 2, 3] = hash_a"
    by (simp add: env0_def)
  with f x set_file_hash_and_size [OF f x, of env0 "init image_cls None" True]
  show ?thesis by simp
qed

subsection \<open>Binding to a run\<close>

text \<open>
  C1, as stated, fails: \<^verbatim>\<open>bind_to_run\<close> never looks at \<^verbatim>\<open>_run\<close> before it assigns
  it. The staged object is bound to the first run; the second call, which names another
  run, returns as well and leaves the object bound to that run, its file copied from
  the first run's directory into the second's.
\<close>

theorem bind_to_run_rebinds_counterexample:
  "bind_to_run env0 staged world0 (Some run1) (PyStr ''img'') (PyInt 0) None = Returned () (bound1, world1) \<and>
   m_run bound1 = Some run1 \<and>
   bind_to_run env0 bound1 world1 (Some run2) (PyStr ''img'') (PyInt 0) None = Returned () (bound2, world2) \<and>
   m_run bound2 = Some run2 \<and> run_id run2 \<noteq> run_id run1"
  using first_bind second_bind
  by (simp add: bound1_def bound2_def run1_def run2_def)

text \<open>
  C1, amended. A call of \<^verbatim>\<open>bind_to_run\<close> on an object that is already bound to another
  run is not rejected: whenever the relocation itself can be carried out (the file is
  set and present, the class defines a media directory, the key passes the platform
  check, the directory can be created and, for a file that is not temporary, the
  destination is not the current path) the call returns and the object is bound to the
  run of this call, with its file at the destination in that run's directory.
\<close>

theorem bind_to_run_rebinds:
  assumes "m_run self = Some r1" and "run_id r2 \<noteq> run_id r1"
    and "m_path self = Some path" and "m_sha256 self = Attr sha"
    and "m_extension self = Attr ext" and "m_is_tmp self = Attr tmp"
    and "get_media_subdir (m_class self) = Inr subdir"
    and "SYS_PLATFORM e = ''Windows'' \<longrightarrow> check_windows_valid_filename e key"
    and "new_path = join (dir r2) [run_media_path subdir key step id_arg sha ext path]"
    and "mkdir_ok e (dirname new_path)"
    and "files w path = Some bs"
    and "tmp \<or> new_path \<noteq> path"
  shows "\<exists>self' w'. bind_to_run e self w (Some r2) key step id_arg = Returned () (self', w') \<and>
           m_run self' = Some r2 \<and> m_path self' = Some new_path \<and> files w' new_path = Some bs"
  using bind_to_run_returns [OF assms(3-7) assms(8) refl assms(9-12)]
  by simp

theorem bind_to_run_rebinds_witness:
  "\<exists>self' w'. bind_to_run env0 bound1 world1 (Some run2) (PyStr ''img'') (PyInt 0) None = Returned () (self', w') \<and>
     m_run self' = Some run2 \<and>
     m_path self' = Some ''/r2/media/images/img_0_aaaaaaaaaaaaaaaaaaaa.png'' \<and>
     files w' ''/r2/media/images/img_0_aaaaaaaaaaaaaaaaaaaa.png'' = Some [1, 2, 3]"
  by (rule bind_to_run_rebinds [where ?r1.0 = run1 and path = "''/r1/media/images/img_0_aaaaaaaaaaaaaaaaaaaa.png''"
          and sha = hash_a and ext = None and subdir = "''media/images''" and tmp = False])
     (simp_all add: bound1_def staged_def init_def image_cls_def env0_def world1_def run1_def run2_def
          second_media_path join_def join2_def startswith_def endswith_def)

text \<open>
  C2. For an object whose file is set, a call of \<^verbatim>\<open>bind_to_run\<close> that can carry out
  the relocation returns, reports to the callback the class's media directory joined with
  the file name \<^verbatim>\<open>{key}_{step}_{id}{extension}\<close> and sets the object's path to the
  run's directory joined with that path. In the name the id is the argument when one is
  given and else the first 20 characters of the hash, and the extension is the extension
  attribute when it is set and else what \<^verbatim>\<open>splitext\<close> finds at the end of the current
  path's base name: the name is a function of the strings of key, step and resolved id
  and of the extension, and of nothing else. Every call on the object that returns, for
  whatever run, reports this same path.
\<close>

theorem bind_to_run_media_path:
  assumes "m_path self = Some path" and "m_sha256 self = Attr sha"
    and "m_extension self = Attr ext" and "m_is_tmp self = Attr tmp"
    and "get_media_subdir (m_class self) = Inr subdir"
    and "SYS_PLATFORM e = ''Windows'' \<longrightarrow> check_windows_valid_filename e key"
    and "name = str_py key @ ''_'' @ str_py step @ ''_'' @
                str_py (case id_arg of None \<Rightarrow> PyStr (take 20 sha) | Some i \<Rightarrow> i) @
                (case ext of None \<Rightarrow> snd (splitext (basename path)) | Some x \<Rightarrow> x)"
    and "mkdir_ok e (dirname (join (dir r) [join subdir [name]]))"
    and "files w path = Some bs"
    and "tmp \<or> join (dir r) [join subdir [name]] \<noteq> path"
  shows "(\<exists>self' w'. bind_to_run e self w (Some r) key step id_arg = Returned () (self', w') \<and>
            callbacks w' = callbacks w @ [join subdir [name]] \<and>
            m_path self' = Some (join (dir r) [join subdir [name]])) \<and>
         name = wb_filename key step (resolved_id id_arg sha) (resolved_extension ext path) \<and>
         (\<forall>run' u self'' w''.
            bind_to_run e self w run' key step id_arg = Returned u (self'', w'') \<longrightarrow>
            callbacks w'' = callbacks w @ [join subdir [name]])"
proof -
  have n: "name = wb_filename key step (resolved_id id_arg sha) (resolved_extension ext path)"
    using assms(7) by (simp add: wb_filename_def resolved_id_def resolved_extension_def)
  have mp: "run_media_path subdir key step id_arg sha ext path = join subdir [name]"
    by (simp add: run_media_path_def n)
  have ret: "bind_to_run e self w (Some r) key step id_arg =
           Returned ()
             (self\<lparr>m_run := Some r, m_path := Some (join (dir r) [join subdir [name]]),
                    m_is_tmp := Attr False\<rparr>,
              w\<lparr>files := (if tmp then ((files w)(path := None))(join (dir r) [join subdir [name]] \<mapsto> bs)
                           else (files w)(join (dir r) [join subdir [name]] \<mapsto> bs)),
                 callbacks := callbacks w @ [join subdir [name]]\<rparr>)"
    by (rule bind_to_run_returns [OF assms(1-6) mp [symmetric] refl assms(8-10)])
  have first: "\<exists>self' w'. bind_to_run e self w (Some r) key step id_arg = Returned () (self', w') \<and>
            callbacks w' = callbacks w @ [join subdir [name]] \<and>
            m_path self' = Some (join (dir r) [join subdir [name]])"
    unfolding ret by simp
  have any: "\<forall>run' u self'' w''.
            bind_to_run e self w run' key step id_arg = Returned u (self'', w'') \<longrightarrow>
            callbacks w'' = callbacks w @ [join subdir [name]]"
  proof (intro allI impI)
    fix run' u self'' w''
    assume "bind_to_run e self w run' key step id_arg = Returned u (self'', w'')"
    from bind_to_run_Returned_eq [OF this] assms(1,2,3,5) mp
    show "callbacks w'' = callbacks w @ [join subdir [name]]"
      by auto
  qed
  from first n any show ?thesis by blast
qed

theorem bind_to_run_media_path_witness:
  "\<exists>self' w'. bind_to_run env0 staged world0 (Some run1) (PyStr ''img'') (PyInt 0) None =
                 Returned () (self', w') \<and>
              callbacks w' = callbacks world0 @ [''media/images/img_0_aaaaaaaaaaaaaaaaaaaa.png''] \<and>
              m_path self' = Some ''/r1/media/images/img_0_aaaaaaaaaaaaaaaaaaaa.png''"
proof -
  have a: "m_path staged = Some ''/tmp/a.png''" "m_sha256 staged = Attr hash_a"
    "m_extension staged = Attr None" "m_is_tmp staged = Attr True"
    "get_media_subdir (m_class staged) = Inr ''media/images''"
    "SYS_PLATFORM env0 = ''Windows'' \<longrightarrow> check_windows_valid_filename env0 (PyStr ''img'')"
    by (simp_all add: staged_def init_def image_cls_def env0_def)
  have n: "''img_0_aaaaaaaaaaaaaaaaaaaa.png'' =
             str_py (PyStr ''img'') @ ''_'' @ str_py (PyInt 0) @ ''_'' @
                str_py (case None of None \<Rightarrow> PyStr (take 20 hash_a) | Some i \<Rightarrow> i) @
                (case None of None \<Rightarrow> snd (splitext (basename ''/tmp/a.png'')) | Some x \<Rightarrow> x)"
    by (simp add: str_of_int_def digits_0 hash_a_def splitext_def basename_def rfind_def eval_nat_numeral)
  have j1: "join ''media/images'' [''img_0_aaaaaaaaaaaaaaaaaaaa.png''] =
              ''media/images/img_0_aaaaaaaaaaaaaaaaaaaa.png''"
    by (simp add: join_def join2_def startswith_def endswith_def)
  have j2: "join (dir run1) [''media/images/img_0_aaaaaaaaaaaaaaaaaaaa.png''] =
              ''/r1/media/images/img_0_aaaaaaaaaaaaaaaaaaaa.png''"
    by (simp add: run1_def join_def join2_def startswith_def endswith_def)
  have m: "mkdir_ok env0 (dirname (join (dir run1) [join ''media/images'' [''img_0_aaaaaaaaaaaaaaaaaaaa.png'']]))"
    by (simp add: env0_def)
  have f: "files world0 ''/tmp/a.png'' = Some [1, 2, 3]"
    by (simp add: world0_def)
  have t: "True \<or> join (dir run1) [join ''media/images'' [''img_0_aaaaaaaaaaaaaaaaaaaa.png'']] \<noteq> ''/tmp/a.png''"
    by simp
  from bind_to_run_media_path [OF a n m f t]
  have "\<exists>self' w'. bind_to_run env0 staged world0 (Some run1) (PyStr ''img'') (PyInt 0) None =
                 Returned () (self', w') \<and>
              callbacks w' = callbacks world0 @ [join ''media/images'' [''img_0_aaaaaaaaaaaaaaaaaaaa.png'']] \<and>
              m_path self' = Some (join (dir run1) [join ''media/images'' [''img_0_aaaaaaaaaaaaaaaaaaaa.png'']])"
    by blast
  then show ?thesis
    unfolding j1 j2 .
qed

text \<open>
  C4. A call of \<^verbatim>\<open>bind_to_run\<close> on an object whose file is set and lies elsewhere than
  at the destination, as a staged file does, returns when the directory can be made, and
  then the bytes of the file are at the destination, the run's directory joined with the
  media path. If the file was temporary it has been moved: it is gone from its original
  path and the object is no longer temporary. If it was not temporary it has been
  copied: it is at both paths. In both cases the object's path is the destination and
  the callback has been called with the media path.
\<close>

theorem bind_to_run_relocates:
  assumes "m_path self = Some path" and "m_sha256 self = Attr sha"
    and "m_extension self = Attr ext" and "m_is_tmp self = Attr tmp"
    and "get_media_subdir (m_class self) = Inr subdir"
    and "SYS_PLATFORM e = ''Windows'' \<longrightarrow> check_windows_valid_filename e key"
    and "media_path = run_media_path subdir key step id_arg sha ext path"
    and "new_path = join (dir r) [media_path]"
    and "mkdir_ok e (dirname new_path)"
    and "files w path = Some bs"
    and "new_path \<noteq> path"
  shows "\<exists>self' w'. bind_to_run e self w (Some r) key step id_arg = Returned () (self', w') \<and>
           files w' new_path = Some bs \<and>
           (tmp \<longrightarrow> files w' path = None) \<and>
           (\<not> tmp \<longrightarrow> files w' path = Some bs) \<and>
           m_is_tmp self' = Attr False \<and>
           m_path self' = Some new_path \<and>
           callbacks w' = callbacks w @ [media_path]"
proof -
  have d: "tmp \<or> new_path \<noteq> path" using assms(11) by simp
  have ret: "bind_to_run e self w (Some r) key step id_arg =
           Returned ()
             (self\<lparr>m_run := Some r, m_path := Some new_path, m_is_tmp := Attr False\<rparr>,
              w\<lparr>files := (if tmp then ((files w)(path := None))(new_path \<mapsto> bs)
                           else (files w)(new_path \<mapsto> bs)),
                 callbacks := callbacks w @ [media_path]\<rparr>)"
    by (rule bind_to_run_returns [OF assms(1-10) d])
  show ?thesis
    unfolding ret using assms(10,11) by auto
qed

theorem bind_to_run_relocates_witness:
  "(\<exists>self' w'. bind_to_run env0 staged world0 (Some run1) (PyStr ''img'') (PyInt 0) None =
                  Returned () (self', w') \<and>
               files w' ''/r1/media/images/img_0_aaaaaaaaaaaaaaaaaaaa.png'' = Some [1, 2, 3] \<and>
               files w' ''/tmp/a.png'' = None \<and>
               m_is_tmp self' = Attr False \<and>
               m_path self' = Some ''/r1/media/images/img_0_aaaaaaaaaaaaaaaaaaaa.png'' \<and>
               callbacks w' = callbacks world0 @ [''media/images/img_0_aaaaaaaaaaaaaaaaaaaa.png'']) \<and>
   (\<exists>self' w'. bind_to_run env0 bound1 world1 (Some run2) (PyStr ''img'') (PyInt 0) None =
                  Returned () (self', w') \<and>
               files w' ''/r2/media/images/img_0_aaaaaaaaaaaaaaaaaaaa.png'' = Some [1, 2, 3] \<and>
               files w' ''/r1/media/images/img_0_aaaaaaaaaaaaaaaaaaaa.png'' = Some [1, 2, 3] \<and>
               m_is_tmp self' = Attr False \<and>
               m_path self' = Some ''/r2/media/images/img_0_aaaaaaaaaaaaaaaaaaaa.png'' \<and>
               callbacks w' = callbacks world1 @ [''media/images/img_0_aaaaaaaaaaaaaaaaaaaa.png''])"
proof -
  have a: "m_path staged = Some ''/tmp/a.png''" "m_sha256 staged = Attr hash_a"
    "m_extension staged = Attr None" "m_is_tmp staged = Attr True"
    "get_media_subdir (m_class staged) = Inr ''media/images''"
    "SYS_PLATFORM env0 = ''Windows'' \<longrightarrow> check_windows_valid_filename env0 (PyStr ''img'')"
    by (simp_all add: staged_def init_def image_cls_def env0_def)
  have j1: "''/r1/media/images/img_0_aaaaaaaaaaaaaaaaaaaa.png'' =
              join (dir run1) [''media/images/img_0_aaaaaaaaaaaaaaaaaaaa.png'']"
    by (simp add: run1_def join_def join2_def startswith_def endswith_def)
  have m1: "mkdir_ok env0 (dirname ''/r1/media/images/img_0_aaaaaaaaaaaaaaaaaaaa.png'')"
    by (simp add: env0_def)
  have f1: "files world0 ''/tmp/a.png'' = Some [1, 2, 3]"
    by (simp add: world0_def)
  have d1: "''/r1/media/images/img_0_aaaaaaaaaaaaaaaaaaaa.png'' \<noteq> ''/tmp/a.png''"
    by simp
  have move_case:
    "\<exists>self' w'. bind_to_run env0 staged world0 (Some run1) (PyStr ''img'') (PyInt 0) None =
                  Returned () (self', w') \<and>
               files w' ''/r1/media/images/img_0_aaaaaaaaaaaaaaaaaaaa.png'' = Some [1, 2, 3] \<and>
               (True \<longrightarrow> files w' ''/tmp/a.png'' = None) \<and>
               (\<not> True \<longrightarrow> files w' ''/tmp/a.png'' = Some [1, 2, 3]) \<and>
               m_is_tmp self' = Attr False \<and>
               m_path self' = Some ''/r1/media/images/img_0_aaaaaaaaaaaaaaaaaaaa.png'' \<and>
               callbacks w' = callbacks world0 @ [''media/images/img_0_aaaaaaaaaaaaaaaaaaaa.png'']"
    by (rule bind_to_run_relocates [OF a example_media_path [symmetric] j1 m1 f1 d1])
  have b: "m_path bound1 = Some ''/r1/media/images/img_0_aaaaaaaaaaaaaaaaaaaa.png''"
    "m_sha256 bound1 = Attr hash_a"
    "m_extension bound1 = Attr None" "m_is_tmp bound1 = Attr False"
    "get_media_subdir (m_class bound1) = Inr ''media/images''"
    "SYS_PLATFORM env0 = ''Windows'' \<longrightarrow> check_windows_valid_filename env0 (PyStr ''img'')"
    by (simp_all add: bound1_def staged_def init_def image_cls_def env0_def)
  have j2: "''/r2/media/images/img_0_aaaaaaaaaaaaaaaaaaaa.png'' =
              join (dir run2) [''media/images/img_0_aaaaaaaaaaaaaaaaaaaa.png'']"
    by (simp add: run2_def join_def join2_def startswith_def endswith_def)
  have m2: "mkdir_ok env0 (dirname ''/r2/media/images/img_0_aaaaaaaaaaaaaaaaaaaa.png'')"
    by (simp add: env0_def)
  have f2: "files world1 ''/r1/media/images/img_0_aaaaaaaaaaaaaaaaaaaa.png'' = Some [1, 2, 3]"
    by (simp add: world1_def)
  have d2: "''/r2/media/images/img_0_aaaaaaaaaaaaaaaaaaaa.png'' \<noteq>
            ''/r1/media/images/img_0_aaaaaaaaaaaaaaaaaaaa.png''"
    by simp
  have copy_case:
    "\<exists>self' w'. bind_to_run env0 bound1 world1 (Some run2) (PyStr ''img'') (PyInt 0) None =
                  Returned () (self', w') \<and>
               files w' ''/r2/media/images/img_0_aaaaaaaaaaaaaaaaaaaa.png'' = Some [1, 2, 3] \<and>
               (False \<longrightarrow> files w' ''/r1/media/images/img_0_aaaaaaaaaaaaaaaaaaaa.png'' = None) \<and>
               (\<not> False \<longrightarrow> files w' ''/r1/media/images/img_0_aaaaaaaaaaaaaaaaaaaa.png'' = Some [1, 2, 3]) \<and>
               m_is_tmp self' = Attr False \<and>
               m_path self' = Some ''/r2/media/images/img_0_aaaaaaaaaaaaaaaaaaaa.png'' \<and>
               callbacks w' = callbacks world1 @ [''media/images/img_0_aaaaaaaaaaaaaaaaaaaa.png'']"
    by (rule bind_to_run_relocates [OF b second_media_path [symmetric] j2 m2 f2 d2])
  from move_case copy_case show ?thesis by simp
qed

subsection \<open>Serialization: the unbound names\<close>

text \<open>
  C3. The claim says that \<^verbatim>\<open>to_json\<close> returns a descriptor for an object bound to the
  run it is given. The code does not: on the object bound to the first run, called with
  that run, it raises \<^verbatim>\<open>NameError\<close> at line 169, because \<^verbatim>\<open>Run\<close> is not bound when
  the program runs.
\<close>

theorem to_json_run_raises_NameError:
  "to_json env0 bound1 (IsRun run1) = Raised NameError (IsRun run1) \<and>
   m_run bound1 = Some run1 \<and> \<not> Run_bound"
  by (simp add: to_json_NameError bound1_def Run_bound_def TYPE_CHECKING_def)

text \<open>
  C7. The claim says that \<^verbatim>\<open>to_json\<close> derives, for a file that is not temporary, a
  name from media directory, hash prefix and base name. Lines 220 to 224 compute that
  name, here \<^verbatim>\<open>media/images/aaaaaaaaaaaaaaaaaaaa/img.png\<close>, but the call never gets
  there: it raises \<^verbatim>\<open>NameError\<close> at line 169 and leaves the artifact as it was.
\<close>

theorem to_json_artifact_name_raises_NameError:
  "to_json env0 (attached image_cls None ''/dir1/img.png'' hash_a 3) (IsArtifact artifact0) =
     Raised NameError (IsArtifact artifact0) \<and>
   candidate_name ''media/images'' False hash_a ''/dir1/img.png'' =
     ''media/images/aaaaaaaaaaaaaaaaaaaa/img.png''"
  by (simp add: to_json_NameError candidate_name_def basename_img1 hash_a_def join_def join2_def
        startswith_def endswith_def eval_nat_numeral)

text \<open>
  C8. The claim says that a second call of \<^verbatim>\<open>to_json\<close> on the same artifact finds the
  name the first call registered. The first call registers nothing: it raises
  \<^verbatim>\<open>NameError\<close> at line 169 and the artifact still has no added path, file or
  reference, so every further call meets the same artifact and raises again.
\<close>

theorem to_json_artifact_twice_raises_NameError:
  "to_json env0 (attached image_cls None ''/dir1/img.png'' hash_a 3) (IsArtifact artifact0) =
     Raised NameError (IsArtifact artifact0) \<and>
   get_added_local_path_name artifact0 ''/dir1/img.png'' = None \<and>
   added_files artifact0 = [] \<and> added_references artifact0 = []"
  by (simp add: to_json_NameError get_added_local_path_name_def artifact0_def)

end
